theory Spec2Isabelle
  imports Main
begin

section \<open>The RAG2 notebook: data model\<close>

text \<open>
  The repository is one Jupyter notebook, \<^verbatim>\<open>RAG2.ipynb\<close>. Its code cells run in the order
  3, 5, 7, 9. PDF loading, text splitting, embedding, the vector store and the chat model
  are calls into third-party packages; they are parameters of the model below. What the
  notebook itself computes (strings, lists, the environment, the variables, control flow)
  is defined here.

  Strings are lists of 8-bit characters, read as the UTF-8 bytes of the Python string.
\<close>

text \<open>A LangChain \<^verbatim>\<open>Document\<close>: the text of a page or chunk and a metadata dictionary.\<close>

record document =
  page_content :: string
  metadata :: "string \<rightharpoonup> string"

text \<open>A chat message as the notebook writes it: a dictionary with the keys role and content.\<close>

record message =
  role :: string
  content :: string

text \<open>Exceptions that can leave a call of the notebook.\<close>

datatype error =
    LoadError string    \<comment> \<open>raised by the PDF loader\<close>
  | RemoteError string  \<comment> \<open>raised inside a call to the embedding or chat service\<close>
  | IndexError          \<comment> \<open>\<^verbatim>\<open>response.choices[0]\<close> on an empty list\<close>
  | NameError string    \<comment> \<open>a variable read before any cell has assigned it\<close>
  | ValueError string   \<comment> \<open>raised by a package that refuses its arguments\<close>
  | EOFError            \<comment> \<open>\<^verbatim>\<open>input()\<close> at the end of standard input\<close>

text \<open>
  The effects of the last cell, in the order they happen: a line read by \<^verbatim>\<open>input\<close>, a call
  of \<^verbatim>\<open>vector_store.similarity_search(query, k)\<close>, a call of
  \<^verbatim>\<open>client.chat.completions.create(model, messages)\<close>, a call of \<^verbatim>\<open>print\<close> (the
  text written before the closing newline).
\<close>

datatype event =
    Input string
  | Search string nat
  | Chat string "message list"
  | Print string

type_synonym trace = "event list"

text \<open>
  The two remote operations. Each may raise; each may answer differently on every call, so
  it sees the effects that happened before it. The completion answers with the contents of
  the messages of its choices (\<^verbatim>\<open>None\<close> when a message has no content).
\<close>

record remote =
  similarity_search :: "trace \<Rightarrow> string \<Rightarrow> nat \<Rightarrow> error + document list"
  chat_create :: "trace \<Rightarrow> string \<Rightarrow> message list \<Rightarrow> error + string option list"

section \<open>Strings\<close>

definition nl :: char where
  "nl = CHR 0x0A"

text \<open>
  \<^verbatim>\<open>str.lower\<close>. On the UTF-8 bytes only the letters A to Z change. Python also lowers
  letters outside ASCII, but E, X, I and T are the only code points whose lower case is
  exactly one of e, x, i, t, so the comparison with \<^verbatim>\<open>"exit"\<close> is decided the same way.
\<close>

definition lower_char :: "char \<Rightarrow> char" where
  "lower_char c =
     (if 65 \<le> (of_char c :: nat) \<and> (of_char c :: nat) \<le> 90
      then char_of ((of_char c :: nat) + 32) else c)"

definition lower :: "string \<Rightarrow> string" where
  "lower s = map lower_char s"

text \<open>
  Equality with \<^verbatim>\<open>exit\<close> up to case, written out: four characters, each the letter of
  \<^verbatim>\<open>exit\<close> at its place, in upper or in lower case.
\<close>

fun is_exit_spelling :: "string \<Rightarrow> bool" where
  "is_exit_spelling [a, b, c, d] =
     (a \<in> set ''eE'' \<and> b \<in> set ''xX'' \<and> c \<in> set ''iI'' \<and> d \<in> set ''tT'')"
| "is_exit_spelling _ = False"

text \<open>\<^verbatim>\<open>sep.join(xs)\<close>\<close>

fun join :: "string \<Rightarrow> string list \<Rightarrow> string" where
  "join sep [] = []"
| "join sep [x] = x"
| "join sep (x # y # ys) = x @ sep @ join sep (y # ys)"

text \<open>\<^verbatim>\<open>str(x)\<close> for an optional string, as \<^verbatim>\<open>print\<close> shows it.\<close>

definition py_str :: "string option \<Rightarrow> string" where
  "py_str r = (case r of None \<Rightarrow> ''None'' | Some s \<Rightarrow> s)"

section \<open>Cell 9: answering a question\<close>

text \<open>
  The f-string of \<^verbatim>\<open>ask_question\<close>. It is a triple-quoted literal inside the function
  body, so every line after the first starts with the four blanks of the indentation.
\<close>

definition indent :: string where
  "indent = ''    ''"

definition prompt_head :: string where
  "prompt_head =
     [nl] @ indent @ ''You are an AI assistant. Answer the question using the retrieved context below.''
     @ [nl] @ indent @ [nl] @ indent @ ''Context:'' @ [nl] @ indent"

definition prompt_mid :: string where
  "prompt_mid = [nl] @ indent @ [nl] @ indent @ ''Question: ''"

definition prompt_tail :: string where
  "prompt_tail = [nl] @ indent @ [nl] @ indent @ ''Answer:'' @ [nl] @ indent"

definition prompt_template :: "string \<Rightarrow> string \<Rightarrow> string" where
  "prompt_template context query = prompt_head @ context @ prompt_mid @ query @ prompt_tail"

definition system_message :: message where
  "system_message =
     \<lparr>role = ''system'',
      content = ''You are an AI that answers questions based on retrieved documents.''\<rparr>"

definition chat_messages :: "document list \<Rightarrow> string \<Rightarrow> message list" where
  "chat_messages retrieved_docs query =
     (let context = join [nl, nl] (map page_content retrieved_docs);
          prompt = prompt_template context query
      in [system_message, \<lparr>role = ''user'', content = prompt\<rparr>])"

text \<open>
  \<^verbatim>\<open>ask_question(query)\<close>: search with k = 3, build the prompt, ask the chat model
  \<^verbatim>\<open>gpt-4\<close>, return the content of the first choice. There is no \<^verbatim>\<open>try\<close>: an
  exception of either call leaves the function. The result is paired with the trace.
\<close>

definition ask_question :: "remote \<Rightarrow> trace \<Rightarrow> string \<Rightarrow> (error + string option) \<times> trace" where
  "ask_question R t query =
     (let t1 = t @ [Search query 3] in
      case similarity_search R t query 3 of
        Inl e \<Rightarrow> (Inl e, t1)
      | Inr retrieved_docs \<Rightarrow>
          (let messages = chat_messages retrieved_docs query;
               t2 = t1 @ [Chat ''gpt-4'' messages] in
           case chat_create R t1 ''gpt-4'' messages of
             Inl e \<Rightarrow> (Inl e, t2)
           | Inr choices \<Rightarrow>
               (case choices of
                  [] \<Rightarrow> (Inl IndexError, t2)
                | c # _ \<Rightarrow> (Inr c, t2))))"

section \<open>Cell 9: the interactive loop\<close>

text \<open>How one pass through the body of \<^verbatim>\<open>while True\<close> ends.\<close>

datatype control = Break | Continue | Raise error

text \<open>How the loop ends: by \<^verbatim>\<open>break\<close>, or by an exception nobody catches.\<close>

datatype outcome = Finished | Uncaught error

text \<open>
  \<^verbatim>\<open>print("\n<robot> Chatbot Response:\n", response, "\n")\<close>: the three arguments
  separated by one blank. The robot emoji is the four bytes F0 9F A4 96.
\<close>

definition response_banner :: string where
  "response_banner =
     [nl, CHR 0xF0, CHR 0x9F, CHR 0xA4, CHR 0x96] @ '' Chatbot Response:'' @ [nl]"

definition response_text :: "string option \<Rightarrow> string" where
  "response_text response = response_banner @ '' '' @ py_str response @ '' '' @ [nl]"

text \<open>The body of the loop, after \<^verbatim>\<open>input\<close> has returned the line \<open>user_query\<close>.\<close>

definition loop_body :: "remote \<Rightarrow> trace \<Rightarrow> string \<Rightarrow> control \<times> trace" where
  "loop_body R t user_query =
     (let t0 = t @ [Input user_query] in
      if lower user_query = ''exit'' then (Break, t0 @ [Print ''Goodbye!''])
      else
        (case ask_question R t0 user_query of
           (Inl e, t1) \<Rightarrow> (Raise e, t1)
         | (Inr response, t1) \<Rightarrow> (Continue, t1 @ [Print (response_text response)])))"

text \<open>
  The loop over the lines standard input holds. When they run out, \<^verbatim>\<open>input\<close> raises
  \<^verbatim>\<open>EOFError\<close>.
\<close>

fun chat_loop :: "remote \<Rightarrow> trace \<Rightarrow> string list \<Rightarrow> outcome \<times> trace" where
  "chat_loop R t [] = (Uncaught EOFError, t)"
| "chat_loop R t (user_query # rest) =
     (case loop_body R t user_query of
        (Break, t') \<Rightarrow> (Finished, t')
      | (Raise e, t') \<Rightarrow> (Uncaught e, t')
      | (Continue, t') \<Rightarrow> chat_loop R t' rest)"

section \<open>Cells 3 to 9: building and querying the index\<close>

text \<open>The arguments the notebook gives to \<^verbatim>\<open>RecursiveCharacterTextSplitter\<close>.\<close>

record splitter =
  separators :: "string list"
  chunk_size :: nat
  chunk_overlap :: nat
  strip_whitespace :: bool
  keep_separator :: bool

definition text_splitter :: splitter where
  "text_splitter =
     \<lparr>separators = [''. '', [nl, nl], '' ''], chunk_size = 85, chunk_overlap = 20,
      strip_whitespace = True, keep_separator = True\<rparr>"

definition pdf_path :: string where
  "pdf_path = ''/Users/hfakhrav/Downloads/2005.11401v4.pdf''"

definition sample_query :: string where
  "sample_query = ''What is Retrieval-Augmented Generation (RAG)?''"

text \<open>
  The object \<^verbatim>\<open>OpenAIEmbeddings(model=...)\<close> returns. The notebook passes no key to it, so
  all the client can take a credential from is what surrounds the call: the process
  environment and the module attribute \<^verbatim>\<open>openai.api_key\<close>, as they are when the object is
  made. The object is that snapshot; what the package does with it is the package's.
\<close>

record embeddings =
  emb_model :: string
  emb_environ :: "string \<rightharpoonup> string"
  emb_api_key :: "string option"

text \<open>
  The third-party operations the cells call, as parameters.
  \<^item> \<open>pdf_load\<close>: \<^verbatim>\<open>PyPDFLoader(path).load()\<close>.
  \<^item> \<open>split_documents\<close>: \<^verbatim>\<open>text_splitter.split_documents(documents)\<close>.
  \<^item> \<open>default_metadata\<close>: the metadata of a \<^verbatim>\<open>Document\<close> whose constructor is given none.
  \<^item> \<open>check_embeddings\<close>: the exception \<^verbatim>\<open>OpenAIEmbeddings(...)\<close> raises, if it raises.
  \<^item> \<open>add_documents\<close>: how \<^verbatim>\<open>Chroma.from_documents(documents, embedding_model)\<close> ends, given
    the client, the effects so far, the collection and the documents: \<open>Inr ()\<close> when all
    documents were embedded and stored, \<open>Inl (e, n)\<close> when it raised \<open>e\<close> after the first
    \<open>n\<close> documents had reached the collection.
  \<^item> \<open>nearest\<close>: the choice \<^verbatim>\<open>similarity_search(query, k)\<close> makes among the stored records,
    as positions in the collection, or the exception it raises (the query is embedded by
    the client first).
  \<^item> \<open>chat_completion\<close>: \<^verbatim>\<open>openai.OpenAI().chat.completions.create(model, messages)\<close>, the
    client made under the given environment and \<^verbatim>\<open>openai.api_key\<close>.
\<close>

record library =
  pdf_load :: "string \<Rightarrow> error + document list"
  split_documents :: "splitter \<Rightarrow> document list \<Rightarrow> error + document list"
  default_metadata :: "string \<rightharpoonup> string"
  check_embeddings :: "embeddings \<Rightarrow> error option"
  add_documents :: "embeddings \<Rightarrow> trace \<Rightarrow> document list \<Rightarrow> document list \<Rightarrow> (error \<times> nat) + unit"
  nearest :: "embeddings \<Rightarrow> trace \<Rightarrow> document list \<Rightarrow> string \<Rightarrow> nat \<Rightarrow> error + nat list"
  chat_completion ::
    "(string \<rightharpoonup> string) \<Rightarrow> string option \<Rightarrow> trace \<Rightarrow> string \<Rightarrow> message list
       \<Rightarrow> error + string option list"

text \<open>
  The state the cells work on: the process environment, the attribute \<^verbatim>\<open>openai.api_key\<close>,
  the collection of the in-memory Chroma client (one per process: every
  \<^verbatim>\<open>Chroma.from_documents\<close> adds to it), the searches made so far, and the variables the
  cells assign (\<open>None\<close> while a variable is unbound). A Chroma object is known by the
  embedding client it holds. The \<^verbatim>\<open>print\<close> calls of the cells before the loop of cell 9
  are left out: they assign no variable and call no package.
\<close>

record notebook =
  environ :: "string \<rightharpoonup> string"
  openai_api_key :: "string option"
  collection :: "document list"
  effects :: trace
  documents :: "document list option"
  chunks :: "document list option"
  embedding_model :: "embeddings option"
  vector_store :: "embeddings option"
  retrieved_docs :: "document list option"

text \<open>
  Cell 3: \<^verbatim>\<open>documents = loader.load()\<close>, then
  \<^verbatim>\<open>chunks = text_splitter.split_documents(documents)\<close>. A cell returns the exception
  that stopped it, if any, and the state it left.
\<close>

definition cell3 :: "library \<Rightarrow> notebook \<Rightarrow> error option \<times> notebook" where
  "cell3 L nb =
     (case pdf_load L pdf_path of
        Inl e \<Rightarrow> (Some e, nb)
      | Inr pages \<Rightarrow>
          (let nb1 = nb\<lparr>documents := Some pages\<rparr> in
           case split_documents L text_splitter pages of
             Inl e \<Rightarrow> (Some e, nb1)
           | Inr cs \<Rightarrow> (None, nb1\<lparr>chunks := Some cs\<rparr>)))"

text \<open>\<^verbatim>\<open>[Document(page_content=chunk.page_content) for chunk in chunks]\<close>\<close>

definition rebuild_documents :: "(string \<rightharpoonup> string) \<Rightarrow> document list \<Rightarrow> document list" where
  "rebuild_documents md0 cs =
     map (\<lambda>chunk. \<lparr>page_content = page_content chunk, metadata = md0\<rparr>) cs"

text \<open>
  Modelled from the spec: the vector index (Chroma, a package outside the repository).
  Section 4.3 of the specification: \<^verbatim>\<open>add(records)\<close> appends to the backing store. The
  store keeps the documents as they were handed over.
\<close>

definition collection_add :: "document list \<Rightarrow> document list \<Rightarrow> document list" where
  "collection_add col docs = col @ docs"

text \<open>
  Modelled from the spec: the vector index (Chroma, a package outside the repository).
  Section 4.3 of the specification: \<^verbatim>\<open>query(vector, k)\<close> returns records of the store, the
  nearest by a metric the implementation chooses. Which records these are is left to
  \<open>nearest\<close>; a position outside the collection gives no record.
\<close>

definition store_search ::
  "library \<Rightarrow> embeddings \<Rightarrow> document list \<Rightarrow> trace \<Rightarrow> string \<Rightarrow> nat \<Rightarrow> error + document list" where
  "store_search L emb col t q k =
     (case nearest L emb t col q k of
        Inl e \<Rightarrow> Inl e
      | Inr ixs \<Rightarrow> Inr (map (\<lambda>i. col ! i) (filter (\<lambda>i. i < length col) ixs)))"

text \<open>\<^verbatim>\<open>OpenAIEmbeddings(model="text-embedding-3-small")\<close>, made in the state \<open>nb\<close>.\<close>

definition new_embeddings :: "notebook \<Rightarrow> embeddings" where
  "new_embeddings nb =
     \<lparr>emb_model = ''text-embedding-3-small'', emb_environ = environ nb,
      emb_api_key = openai_api_key nb\<rparr>"

text \<open>
  The three statements cell 5 and cell 9 share, in the order of the source:
  \<^verbatim>\<open>embedding_model = OpenAIEmbeddings(...)\<close>, \<^verbatim>\<open>documents = [...]\<close> (a \<^verbatim>\<open>NameError\<close> when
  cell 3 has bound no \<^verbatim>\<open>chunks\<close>), and
  \<^verbatim>\<open>vector_store = Chroma.from_documents(documents, embedding_model)\<close>. A statement that
  raises assigns nothing; what the statements before it assigned stays.
\<close>

definition build_index :: "library \<Rightarrow> notebook \<Rightarrow> error option \<times> notebook" where
  "build_index L nb =
     (let emb = new_embeddings nb in
      case check_embeddings L emb of
        Some e \<Rightarrow> (Some e, nb)
      | None \<Rightarrow>
          (let nb1 = nb\<lparr>embedding_model := Some emb\<rparr> in
           case chunks nb1 of
             None \<Rightarrow> (Some (NameError ''chunks''), nb1)
           | Some cs \<Rightarrow>
               (let docs = rebuild_documents (default_metadata L) cs;
                    nb2 = nb1\<lparr>documents := Some docs\<rparr> in
                case add_documents L emb (effects nb2) (collection nb2) docs of
                  Inl (e, n) \<Rightarrow>
                    (Some e, nb2\<lparr>collection := collection_add (collection nb2) (take n docs)\<rparr>)
                | Inr u \<Rightarrow>
                    (None, nb2\<lparr>collection := collection_add (collection nb2) docs,
                                vector_store := Some emb\<rparr>))))"

text \<open>
  Cell 5: \<^verbatim>\<open>os.environ["OPENAI_API_KEY"] = ""  # Replace with your actual key\<close>, then the
  three statements above. \<open>key\<close> is the string written in the assignment: the published
  notebook has the empty string there, and asks its user to write a key in its place.
\<close>

definition cell5_with :: "string \<Rightarrow> library \<Rightarrow> notebook \<Rightarrow> error option \<times> notebook" where
  "cell5_with key L nb = build_index L (nb\<lparr>environ := (environ nb)(''OPENAI_API_KEY'' \<mapsto> key)\<rparr>)"

definition cell5 :: "library \<Rightarrow> notebook \<Rightarrow> error option \<times> notebook" where
  "cell5 L nb = cell5_with [] L nb"

text \<open>
  \<^verbatim>\<open>retrieved_docs = vector_store.similarity_search(query, k=3)\<close> with the sample query:
  the body of cell 7, and a part of cell 9.
\<close>

definition sample_search :: "library \<Rightarrow> notebook \<Rightarrow> error option \<times> notebook" where
  "sample_search L nb =
     (case vector_store nb of
        None \<Rightarrow> (Some (NameError ''vector_store''), nb)
      | Some vs \<Rightarrow>
          (let nb1 = nb\<lparr>effects := effects nb @ [Search sample_query 3]\<rparr> in
           case store_search L vs (collection nb) (effects nb) sample_query 3 of
             Inl e \<Rightarrow> (Some e, nb1)
           | Inr ds \<Rightarrow> (None, nb1\<lparr>retrieved_docs := Some ds\<rparr>)))"

definition cell7 :: "library \<Rightarrow> notebook \<Rightarrow> error option \<times> notebook" where
  "cell7 L nb = sample_search L nb"

text \<open>
  Cell 9 before its loop: \<^verbatim>\<open>openai.api_key = os.getenv("OPENAI_API_KEY")\<close>, the three
  statements that build the index, the sample search.
\<close>

definition cell9_setup :: "library \<Rightarrow> notebook \<Rightarrow> error option \<times> notebook" where
  "cell9_setup L nb =
     (case build_index L (nb\<lparr>openai_api_key := environ nb ''OPENAI_API_KEY''\<rparr>) of
        (Some e, nb1) \<Rightarrow> (Some e, nb1)
      | (None, nb1) \<Rightarrow> sample_search L nb1)"

text \<open>
  The two remote operations of \<^verbatim>\<open>ask_question\<close> in the state \<open>nb\<close>: the search goes
  through the global \<^verbatim>\<open>vector_store\<close>, the completion through a client that
  \<^verbatim>\<open>openai.OpenAI()\<close> makes on the spot.
\<close>

definition cell9_remote :: "library \<Rightarrow> notebook \<Rightarrow> remote" where
  "cell9_remote L nb =
     \<lparr>similarity_search =
        (\<lambda>t q k. case vector_store nb of
                    None \<Rightarrow> Inl (NameError ''vector_store'')
                  | Some vs \<Rightarrow> store_search L vs (collection nb) t q k),
      chat_create = (\<lambda>t m ms. chat_completion L (environ nb) (openai_api_key nb) t m ms)\<rparr>"

text \<open>Cell 9 as a whole, on the lines standard input holds.\<close>

definition cell9 :: "library \<Rightarrow> notebook \<Rightarrow> string list \<Rightarrow> outcome \<times> notebook" where
  "cell9 L nb lines =
     (case cell9_setup L nb of
        (Some e, nb1) \<Rightarrow> (Uncaught e, nb1)
      | (None, nb1) \<Rightarrow>
          (case chat_loop (cell9_remote L nb1) (effects nb1) lines of
             (out, t) \<Rightarrow> (out, nb1\<lparr>effects := t\<rparr>)))"

text \<open>
  The value of the credential variable that the state \<open>nb\<close> works with: in the environment,
  and in the snapshot of every embedding client a variable holds.
\<close>

definition uses_key :: "string option \<Rightarrow> notebook \<Rightarrow> bool" where
  "uses_key v nb \<longleftrightarrow>
     environ nb ''OPENAI_API_KEY'' = v
     \<and> (case embedding_model nb of None \<Rightarrow> True | Some e \<Rightarrow> emb_environ e ''OPENAI_API_KEY'' = v)
     \<and> (case vector_store nb of None \<Rightarrow> True | Some e \<Rightarrow> emb_environ e ''OPENAI_API_KEY'' = v)"

section \<open>Sample inputs\<close>

definition page1 :: document where
  "page1 = \<lparr>page_content = ''Retrieval-augmented generation.'',
            metadata = [''source'' \<mapsto> ''2005.11401v4.pdf'', ''page'' \<mapsto> ''0'']\<rparr>"

definition page2 :: document where
  "page2 = \<lparr>page_content = ''We build RAG models.'',
            metadata = [''source'' \<mapsto> ''2005.11401v4.pdf'', ''page'' \<mapsto> ''1'']\<rparr>"

definition stored1 :: document where
  "stored1 = \<lparr>page_content = ''Retrieval-augmented generation.'', metadata = Map.empty\<rparr>"

definition stored2 :: document where
  "stored2 = \<lparr>page_content = ''We build RAG models.'', metadata = Map.empty\<rparr>"

text \<open>A service that answers every call.\<close>

definition remote_ok :: remote where
  "remote_ok =
     \<lparr>similarity_search = (\<lambda>t q k. Inr (take k [stored1, stored2])),
      chat_create = (\<lambda>t m ms. Inr [Some ''RAG combines retrieval and generation.''])\<rparr>"

text \<open>A service whose search fails, and one whose completion fails.\<close>

definition remote_search_down :: remote where
  "remote_search_down =
     \<lparr>similarity_search = (\<lambda>t q k. Inl (RemoteError ''timeout'')),
      chat_create = (\<lambda>t m ms. Inr [Some ''unused''])\<rparr>"

definition remote_chat_down :: remote where
  "remote_chat_down =
     \<lparr>similarity_search = (\<lambda>t q k. Inr (take k [stored1, stored2])),
      chat_create = (\<lambda>t m ms. Inl (RemoteError ''rate limit''))\<rparr>"

text \<open>
  Sample packages. The PDF at the path of cell 3 has two short pages, which the splitter
  leaves whole. The provider knows two keys. A client without a key cannot be made; a call
  under any other key, the empty one among them, is refused; Chroma refuses an empty list.
  The search answers with the first \<open>k\<close> records of the collection.
\<close>

definition valid_key :: "string option \<Rightarrow> bool" where
  "valid_key v \<longleftrightarrow> v = Some ''sk-caller'' \<or> v = Some ''sk-notebook''"

definition library_sample :: library where
  "library_sample =
     \<lparr>pdf_load = (\<lambda>p. if p = pdf_path then Inr [page1, page2] else Inl (LoadError ''no such file'')),
      split_documents =
        (\<lambda>cfg ds. if list_all (\<lambda>d. length (page_content d) \<le> chunk_size cfg) ds then Inr ds
                   else Inl (ValueError ''page outside the sample'')),
      default_metadata = Map.empty,
      check_embeddings =
        (\<lambda>e. if emb_environ e ''OPENAI_API_KEY'' = None \<and> emb_api_key e = None
              then Some (ValueError ''no api key'') else None),
      add_documents =
        (\<lambda>e t col docs.
           if docs = [] then Inl (ValueError ''empty list'', 0)
           else if valid_key (emb_environ e ''OPENAI_API_KEY'') then Inr ()
           else Inl (RemoteError ''401'', 0)),
      nearest =
        (\<lambda>e t col q k.
           if valid_key (emb_environ e ''OPENAI_API_KEY'') then Inr [0..<min k (length col)]
           else Inl (RemoteError ''401'')),
      chat_completion =
        (\<lambda>env key t m ms.
           if valid_key (env ''OPENAI_API_KEY'') then Inr [Some ''RAG combines retrieval and generation.'']
           else Inl (RemoteError ''401''))\<rparr>"

text \<open>A fresh kernel whose caller has exported a key the provider knows.\<close>

definition fresh_notebook :: notebook where
  "fresh_notebook =
     \<lparr>environ = [''OPENAI_API_KEY'' \<mapsto> ''sk-caller'', ''HOME'' \<mapsto> ''/root''],
      openai_api_key = None, collection = [], effects = [],
      documents = None, chunks = None, embedding_model = None, vector_store = None,
      retrieved_docs = None\<rparr>"

text \<open>The same kernel when cell 3 has run: pages and chunks are bound.\<close>

definition loaded_notebook :: notebook where
  "loaded_notebook = fresh_notebook\<lparr>documents := Some [page1, page2], chunks := Some [page1, page2]\<rparr>"


section \<open>Properties of the strings\<close>

lemma lower_char_iff:
  assumes d: "97 \<le> (of_char d :: nat)" "(of_char d :: nat) \<le> 122"
  shows "lower_char c = d \<longleftrightarrow> c = d \<or> (of_char c :: nat) + 32 = of_char d"
proof (cases "65 \<le> (of_char c :: nat) \<and> (of_char c :: nat) \<le> 90")
  case True
  then have lt: "(of_char c :: nat) + 32 < 256" by simp
  have "lower_char c = char_of ((of_char c :: nat) + 32)"
    using True by (simp add: lower_char_def)
  moreover have "char_of ((of_char c :: nat) + 32) = d \<longleftrightarrow> (of_char c :: nat) + 32 = of_char d"
    using lt by (simp add: char_of_eq_iff take_bit_nat_eq_self)
  moreover have "c \<noteq> d" using True d by auto
  ultimately show ?thesis by simp
next
  case False
  then have "lower_char c = c" by (auto simp: lower_char_def)
  moreover have "(of_char c :: nat) + 32 \<noteq> of_char d" using False d by auto
  ultimately show ?thesis by simp
qed

lemma lower_char_e: "lower_char c = CHR ''e'' \<longleftrightarrow> c = CHR ''e'' \<or> c = CHR ''E''"
proof -
  have "(of_char c :: nat) + 32 = of_char (CHR ''e'') \<longleftrightarrow> (of_char c :: nat) = of_char (CHR ''E'')"
    by simp
  then show ?thesis
    using lower_char_iff [of "CHR ''e''" c] by (simp only: of_char_eq_iff) simp
qed

lemma lower_char_x: "lower_char c = CHR ''x'' \<longleftrightarrow> c = CHR ''x'' \<or> c = CHR ''X''"
proof -
  have "(of_char c :: nat) + 32 = of_char (CHR ''x'') \<longleftrightarrow> (of_char c :: nat) = of_char (CHR ''X'')"
    by simp
  then show ?thesis
    using lower_char_iff [of "CHR ''x''" c] by (simp only: of_char_eq_iff) simp
qed

lemma lower_char_i: "lower_char c = CHR ''i'' \<longleftrightarrow> c = CHR ''i'' \<or> c = CHR ''I''"
proof -
  have "(of_char c :: nat) + 32 = of_char (CHR ''i'') \<longleftrightarrow> (of_char c :: nat) = of_char (CHR ''I'')"
    by simp
  then show ?thesis
    using lower_char_iff [of "CHR ''i''" c] by (simp only: of_char_eq_iff) simp
qed

lemma lower_char_t: "lower_char c = CHR ''t'' \<longleftrightarrow> c = CHR ''t'' \<or> c = CHR ''T''"
proof -
  have "(of_char c :: nat) + 32 = of_char (CHR ''t'') \<longleftrightarrow> (of_char c :: nat) = of_char (CHR ''T'')"
    by simp
  then show ?thesis
    using lower_char_iff [of "CHR ''t''" c] by (simp only: of_char_eq_iff) simp
qed

lemma lower_Nil: "lower s = [] \<longleftrightarrow> s = []"
  by (simp add: lower_def)

lemma lower_Cons: "lower (a # r) = x # xs \<longleftrightarrow> lower_char a = x \<and> lower r = xs"
  by (simp add: lower_def)

lemma lower_exit_iff: "lower s = ''exit'' \<longleftrightarrow> is_exit_spelling s"
  by (induction s rule: is_exit_spelling.induct)
    (simp_all add: lower_Cons lower_Nil lower_char_e lower_char_x lower_char_i lower_char_t,
     simp_all add: lower_def)

lemma length_join:
  "length (join sep xs) = sum_list (map length xs) + length sep * (length xs - 1)"
  by (induction sep xs rule: join.induct) simp_all

section \<open>Properties of the loop\<close>

lemma ask_question_trace:
  "\<exists>u. snd (ask_question R t q) = t @ Search q 3 # u"
  by (simp add: ask_question_def Let_def split: sum.splits list.splits)

lemma loop_body_break: "fst (loop_body R t line) = Break \<longleftrightarrow> lower line = ''exit''"
  by (simp add: loop_body_def Let_def split: prod.splits sum.splits)


lemma loop_body_exit:
  "is_exit_spelling line \<Longrightarrow> loop_body R t line = (Break, t @ [Input line, Print ''Goodbye!''])"
  by (simp add: loop_body_def lower_exit_iff)

lemma loop_body_ask:
  "\<not> is_exit_spelling line \<Longrightarrow>
     loop_body R t line =
       (case ask_question R (t @ [Input line]) line of
          (Inl e, t1) \<Rightarrow> (Raise e, t1)
        | (Inr r, t1) \<Rightarrow> (Continue, t1 @ [Print (response_text r)]))"
  by (simp add: loop_body_def lower_exit_iff)

lemma loop_body_trace:
  assumes "\<not> is_exit_spelling line"
  shows "\<exists>u. snd (loop_body R t line) = t @ Input line # Search line 3 # u"
proof -
  obtain u where u: "snd (ask_question R (t @ [Input line]) line) = (t @ [Input line]) @ Search line 3 # u"
    using ask_question_trace by blast
  show ?thesis
  proof (cases "ask_question R (t @ [Input line]) line")
    case (Pair res t1)
    with u have t1: "t1 = t @ Input line # Search line 3 # u" by simp
    show ?thesis
      using assms Pair t1 by (cases res) (simp_all add: loop_body_ask)
  qed
qed

text \<open>
  Claim C6. For every line the loop reads: the body of the loop ends in \<^verbatim>\<open>break\<close> exactly
  when the line is \<^verbatim>\<open>exit\<close> in some mix of upper and lower case, and then the loop is
  over whatever lines follow, without a call of \<^verbatim>\<open>ask_question\<close>. Every other line, the
  empty line and \<^verbatim>\<open>quit\<close> among them, is passed to \<^verbatim>\<open>ask_question\<close>, whose search
  is the next effect after the line was read; when \<^verbatim>\<open>ask_question\<close> returns, the answer
  is printed and the loop goes on with the next line.
\<close>

theorem exit_token_ends_loop:
  "(is_exit_spelling line \<longleftrightarrow> lower line = ''exit'')
   \<and> (fst (loop_body R t line) = Break \<longleftrightarrow> is_exit_spelling line)
   \<and> (is_exit_spelling line \<longrightarrow>
        chat_loop R t (line # rest) = (Finished, t @ [Input line, Print ''Goodbye!'']))
   \<and> (\<not> is_exit_spelling line \<longrightarrow>
        loop_body R t line =
          (case ask_question R (t @ [Input line]) line of
             (Inl e, t1) \<Rightarrow> (Raise e, t1)
           | (Inr r, t1) \<Rightarrow> (Continue, t1 @ [Print (response_text r)]))
        \<and> (\<exists>u. snd (loop_body R t line) = t @ Input line # Search line 3 # u))
   \<and> (\<not> is_exit_spelling line \<and> ask_question R (t @ [Input line]) line = (Inr r, t1) \<longrightarrow>
        chat_loop R t (line # rest) = chat_loop R (t1 @ [Print (response_text r)]) rest)
   \<and> \<not> is_exit_spelling [] \<and> \<not> is_exit_spelling ''quit''"
proof -
  have "fst (loop_body R t line) = Break \<longleftrightarrow> is_exit_spelling line"
    by (simp add: loop_body_break lower_exit_iff)
  moreover have "chat_loop R t (line # rest) = (Finished, t @ [Input line, Print ''Goodbye!''])"
    if "is_exit_spelling line"
    using that by (simp add: loop_body_exit)
  moreover have "chat_loop R t (line # rest) = chat_loop R (t1 @ [Print (response_text r)]) rest"
    if "\<not> is_exit_spelling line" "ask_question R (t @ [Input line]) line = (Inr r, t1)"
    using that by (simp add: loop_body_ask)
  ultimately show ?thesis
    using loop_body_ask [of line R t] loop_body_trace [of line R t]
    by (simp add: lower_exit_iff)
qed

theorem exit_token_ends_loop_witness:
  "is_exit_spelling ''EXIT''
   \<and> lower ''EXIT'' = ''exit''
   \<and> chat_loop remote_ok [] [''EXIT'', ''What is RAG?''] = (Finished, [Input ''EXIT'', Print ''Goodbye!''])
   \<and> \<not> is_exit_spelling ''quit''
   \<and> fst (loop_body remote_ok [] ''quit'') \<noteq> Break
   \<and> chat_loop remote_ok [] [''quit'', ''EXIT''] =
       (Finished,
        [Input ''quit'', Search ''quit'' 3, Chat ''gpt-4'' (chat_messages [stored1, stored2] ''quit''),
         Print (response_text (Some ''RAG combines retrieval and generation.'')),
         Input ''EXIT'', Print ''Goodbye!''])"
proof -
  let ?t1 = "[Input ''quit'', Search ''quit'' 3, Chat ''gpt-4'' (chat_messages [stored1, stored2] ''quit'')]"
  let ?r = "Some ''RAG combines retrieval and generation.''"
  have yes: "is_exit_spelling ''EXIT''" by simp
  have no: "\<not> is_exit_spelling ''quit''" by simp
  have ask: "ask_question remote_ok [Input ''quit''] ''quit'' = (Inr ?r, ?t1)"
    by (simp add: ask_question_def remote_ok_def Let_def)
  note E = exit_token_ends_loop [of "''EXIT''" remote_ok "[]" "[''What is RAG?'']"]
  note Q = exit_token_ends_loop [of "''quit''" remote_ok "[]" "[''EXIT'']" ?r ?t1]
  note E2 = exit_token_ends_loop [of "''EXIT''" remote_ok "?t1 @ [Print (response_text ?r)]" "[]"]
  have "chat_loop remote_ok [] [''EXIT'', ''What is RAG?''] = (Finished, [] @ [Input ''EXIT'', Print ''Goodbye!''])"
    using E yes by blast
  moreover have "lower ''EXIT'' = ''exit''"
    using E yes by blast
  moreover have "fst (loop_body remote_ok [] ''quit'') \<noteq> Break"
    using Q no by blast
  moreover have "chat_loop remote_ok [] [''quit'', ''EXIT''] =
       chat_loop remote_ok (?t1 @ [Print (response_text ?r)]) [''EXIT'']"
    using Q no ask by (simp del: chat_loop.simps)
  moreover have "chat_loop remote_ok (?t1 @ [Print (response_text ?r)]) [''EXIT''] =
       (Finished, (?t1 @ [Print (response_text ?r)]) @ [Input ''EXIT'', Print ''Goodbye!''])"
    using E2 yes by blast
  ultimately show ?thesis
    using yes no by (simp del: chat_loop.simps)
qed

section \<open>Properties of \<^verbatim>\<open>ask_question\<close>\<close>

lemma prompt_fixed_length:
  "length prompt_head + (length prompt_mid + length prompt_tail) = 149"
  by (simp add: prompt_head_def prompt_mid_def prompt_tail_def indent_def)

lemma length_prompt_template:
  "length (prompt_template context query) = 149 + length context + length query"
  by (simp add: prompt_template_def prompt_head_def prompt_mid_def prompt_tail_def indent_def)

lemma ask_question_search_ok:
  assumes "similarity_search R t query 3 = Inr docs"
  shows "ask_question R t query =
     (case chat_create R (t @ [Search query 3]) ''gpt-4'' (chat_messages docs query) of
        Inl e \<Rightarrow> Inl e
      | Inr [] \<Rightarrow> Inl IndexError
      | Inr (c # _) \<Rightarrow> Inr c,
      t @ [Search query 3, Chat ''gpt-4'' (chat_messages docs query)])"
  using assms by (simp add: ask_question_def Let_def split: sum.splits list.splits)

text \<open>
  Claim C7. Whatever documents the search returns for a query, however many and however
  long, \<^verbatim>\<open>ask_question\<close> sends the chat model \<^verbatim>\<open>gpt-4\<close> the system message and one user
  message. The user message is the fixed template with the context and the query filled
  in; the context is the texts of the retrieved documents in the order of retrieval, joined
  by two newlines. Nothing is cut: the prompt is 149 characters longer than context and
  query together. The answer of \<^verbatim>\<open>ask_question\<close> is decided by the completion alone.
\<close>

theorem ask_question_prompt:
  "similarity_search R t query 3 = Inr docs \<longrightarrow>
     snd (ask_question R t query) = t @ [Search query 3, Chat ''gpt-4'' (chat_messages docs query)]
     \<and> fst (ask_question R t query) =
         (case chat_create R (t @ [Search query 3]) ''gpt-4'' (chat_messages docs query) of
            Inl e \<Rightarrow> Inl e
          | Inr [] \<Rightarrow> Inl IndexError
          | Inr (c # _) \<Rightarrow> Inr c)
     \<and> chat_messages docs query =
         [system_message,
          \<lparr>role = ''user'',
           content = prompt_head @ join [nl, nl] (map page_content docs) @ prompt_mid @ query @ prompt_tail\<rparr>]
     \<and> join [nl, nl] (map page_content [d1, d2, d3]) =
         page_content d1 @ [nl, nl] @ page_content d2 @ [nl, nl] @ page_content d3
     \<and> length (content (chat_messages docs query ! 1)) =
         149 + (sum_list (map (length \<circ> page_content) docs) + 2 * (length docs - 1)) + length query"
proof
  assume ok: "similarity_search R t query 3 = Inr docs"
  have msgs: "chat_messages docs query =
         [system_message,
          \<lparr>role = ''user'',
           content = prompt_head @ join [nl, nl] (map page_content docs) @ prompt_mid @ query @ prompt_tail\<rparr>]"
    by (simp add: chat_messages_def prompt_template_def)
  have "length (content (chat_messages docs query ! 1)) =
      length (prompt_template (join [nl, nl] (map page_content docs)) query)"
    by (simp add: chat_messages_def)
  then have len: "length (content (chat_messages docs query ! 1)) =
      149 + (sum_list (map (length \<circ> page_content) docs) + 2 * (length docs - 1)) + length query"
    by (simp only: length_prompt_template length_join) (simp add: comp_def)
  show "snd (ask_question R t query) = t @ [Search query 3, Chat ''gpt-4'' (chat_messages docs query)]
     \<and> fst (ask_question R t query) =
         (case chat_create R (t @ [Search query 3]) ''gpt-4'' (chat_messages docs query) of
            Inl e \<Rightarrow> Inl e
          | Inr [] \<Rightarrow> Inl IndexError
          | Inr (c # _) \<Rightarrow> Inr c)
     \<and> chat_messages docs query =
         [system_message,
          \<lparr>role = ''user'',
           content = prompt_head @ join [nl, nl] (map page_content docs) @ prompt_mid @ query @ prompt_tail\<rparr>]
     \<and> join [nl, nl] (map page_content [d1, d2, d3]) =
         page_content d1 @ [nl, nl] @ page_content d2 @ [nl, nl] @ page_content d3
     \<and> length (content (chat_messages docs query ! 1)) =
         149 + (sum_list (map (length \<circ> page_content) docs) + 2 * (length docs - 1)) + length query"
    using msgs len by (simp add: ask_question_search_ok [OF ok])
qed


theorem ask_question_prompt_witness:
  "similarity_search remote_ok [] ''What is RAG?'' 3 = Inr [stored1, stored2]
   \<and> snd (ask_question remote_ok [] ''What is RAG?'') =
      [Search ''What is RAG?'' 3, Chat ''gpt-4'' (chat_messages [stored1, stored2] ''What is RAG?'')]
   \<and> fst (ask_question remote_ok [] ''What is RAG?'') = Inr (Some ''RAG combines retrieval and generation.'')
   \<and> chat_messages [stored1, stored2] ''What is RAG?'' =
      [system_message,
       \<lparr>role = ''user'',
        content = prompt_head @ (''Retrieval-augmented generation.'' @ [nl, nl] @ ''We build RAG models.'')
          @ prompt_mid @ ''What is RAG?'' @ prompt_tail\<rparr>]
   \<and> length (content (chat_messages [stored1, stored2] ''What is RAG?'' ! 1)) = 214"
proof -
  have ok: "similarity_search remote_ok [] ''What is RAG?'' 3 = Inr [stored1, stored2]"
    by (simp add: remote_ok_def)
  have chat: "chat_create remote_ok u m ms = Inr [Some ''RAG combines retrieval and generation.'']"
    for u m ms
    by (simp add: remote_ok_def)
  show ?thesis
    using ask_question_prompt [of remote_ok "[]" "''What is RAG?''" "[stored1, stored2]"] ok
    by (simp add: chat stored1_def stored2_def prompt_fixed_length)
qed

section \<open>Errors of the remote calls\<close>

text \<open>
  Claim C9. An exception of the search, or of the completion, leaves \<^verbatim>\<open>ask_question\<close> as
  it is: the failed call is the last effect of \<^verbatim>\<open>ask_question\<close>, made once, and after a
  failed search the chat model is not called. The loop does not catch it either: on a line
  that is not the exit token the loop ends with that exception uncaught, prints no answer
  and reads none of the lines that follow.
\<close>

theorem remote_errors_propagate:
  "(similarity_search R t q 3 = Inl e \<longrightarrow>
      ask_question R t q = (Inl e, t @ [Search q 3]))
   \<and> (similarity_search R t q 3 = Inr docs
        \<and> chat_create R (t @ [Search q 3]) ''gpt-4'' (chat_messages docs q) = Inl e \<longrightarrow>
      ask_question R t q = (Inl e, t @ [Search q 3, Chat ''gpt-4'' (chat_messages docs q)]))
   \<and> (\<not> is_exit_spelling q \<and> similarity_search R (t @ [Input q]) q 3 = Inl e \<longrightarrow>
      chat_loop R t (q # rest) = (Uncaught e, t @ [Input q, Search q 3]))
   \<and> (\<not> is_exit_spelling q \<and> similarity_search R (t @ [Input q]) q 3 = Inr docs
        \<and> chat_create R (t @ [Input q, Search q 3]) ''gpt-4'' (chat_messages docs q) = Inl e \<longrightarrow>
      chat_loop R t (q # rest) =
        (Uncaught e, t @ [Input q, Search q 3, Chat ''gpt-4'' (chat_messages docs q)]))"
proof -
  have search: "ask_question R u q = (Inl e, u @ [Search q 3])"
    if "similarity_search R u q 3 = Inl e" for u
    using that by (simp add: ask_question_def)
  have chat: "ask_question R u q = (Inl e, u @ [Search q 3, Chat ''gpt-4'' (chat_messages docs q)])"
    if "similarity_search R u q 3 = Inr docs"
      "chat_create R (u @ [Search q 3]) ''gpt-4'' (chat_messages docs q) = Inl e" for u
    using that by (simp add: ask_question_search_ok)
  have "chat_loop R t (q # rest) = (Uncaught e, t @ [Input q, Search q 3])"
    if "\<not> is_exit_spelling q" "similarity_search R (t @ [Input q]) q 3 = Inl e"
    using that search [of "t @ [Input q]"] by (simp add: loop_body_ask)
  moreover have "chat_loop R t (q # rest) =
        (Uncaught e, t @ [Input q, Search q 3, Chat ''gpt-4'' (chat_messages docs q)])"
    if "\<not> is_exit_spelling q" "similarity_search R (t @ [Input q]) q 3 = Inr docs"
      "chat_create R (t @ [Input q, Search q 3]) ''gpt-4'' (chat_messages docs q) = Inl e"
    using that chat [of "t @ [Input q]"] by (simp add: loop_body_ask)
  ultimately show ?thesis
    using search [of t] chat [of t] by blast
qed

theorem remote_errors_propagate_witness:
  "chat_loop remote_search_down [] [''What is RAG?'', ''exit''] =
     (Uncaught (RemoteError ''timeout''), [Input ''What is RAG?'', Search ''What is RAG?'' 3])
   \<and> chat_loop remote_chat_down [] [''What is RAG?'', ''exit''] =
     (Uncaught (RemoteError ''rate limit''),
      [Input ''What is RAG?'', Search ''What is RAG?'' 3,
       Chat ''gpt-4'' (chat_messages [stored1, stored2] ''What is RAG?'')])
   \<and> ask_question remote_search_down [] ''What is RAG?'' =
     (Inl (RemoteError ''timeout''), [Search ''What is RAG?'' 3])
   \<and> ask_question remote_chat_down [] ''What is RAG?'' =
     (Inl (RemoteError ''rate limit''),
      [Search ''What is RAG?'' 3, Chat ''gpt-4'' (chat_messages [stored1, stored2] ''What is RAG?'')])"
proof -
  have no: "\<not> is_exit_spelling ''What is RAG?''" by simp
  have s1: "similarity_search remote_search_down u ''What is RAG?'' 3 = Inl (RemoteError ''timeout'')" for u
    by (simp add: remote_search_down_def)
  have s2: "similarity_search remote_chat_down u ''What is RAG?'' 3 = Inr [stored1, stored2]" for u
    by (simp add: remote_chat_down_def)
  have c2: "chat_create remote_chat_down u m ms = Inl (RemoteError ''rate limit'')" for u m ms
    by (simp add: remote_chat_down_def)
  note A = remote_errors_propagate [of remote_search_down "[]" "''What is RAG?''"
      "RemoteError ''timeout''" "[]" "[''exit'']"]
  note B = remote_errors_propagate [of remote_chat_down "[]" "''What is RAG?''"
      "RemoteError ''rate limit''" "[stored1, stored2]" "[''exit'']"]
  show ?thesis
    using A B no s1 s2 c2 by (simp del: chat_loop.simps)
qed

section \<open>The index and the credential\<close>

lemma build_index_cases:
  obtains (refused) e where "check_embeddings L (new_embeddings nb) = Some e"
      "build_index L nb = (Some e, nb)"
  | (unbound) "check_embeddings L (new_embeddings nb) = None" "chunks nb = None"
      "build_index L nb = (Some (NameError ''chunks''), nb\<lparr>embedding_model := Some (new_embeddings nb)\<rparr>)"
  | (failed) cs e n where "check_embeddings L (new_embeddings nb) = None" "chunks nb = Some cs"
      "add_documents L (new_embeddings nb) (effects nb) (collection nb)
         (rebuild_documents (default_metadata L) cs) = Inl (e, n)"
      "build_index L nb =
         (Some e, nb\<lparr>embedding_model := Some (new_embeddings nb),
                     documents := Some (rebuild_documents (default_metadata L) cs),
                     collection := collection nb @ take n (rebuild_documents (default_metadata L) cs)\<rparr>)"
  | (stored) cs where "check_embeddings L (new_embeddings nb) = None" "chunks nb = Some cs"
      "add_documents L (new_embeddings nb) (effects nb) (collection nb)
         (rebuild_documents (default_metadata L) cs) = Inr ()"
      "build_index L nb =
         (None, nb\<lparr>embedding_model := Some (new_embeddings nb),
                   documents := Some (rebuild_documents (default_metadata L) cs),
                   collection := collection nb @ rebuild_documents (default_metadata L) cs,
                   vector_store := Some (new_embeddings nb)\<rparr>)"
proof (cases "check_embeddings L (new_embeddings nb)")
  case (Some e)
  then have "build_index L nb = (Some e, nb)" by (simp add: build_index_def Let_def)
  with Some show ?thesis by (rule refused)
next
  case None
  show ?thesis
  proof (cases "chunks nb")
    case c: None
    have "build_index L nb =
        (Some (NameError ''chunks''), nb\<lparr>embedding_model := Some (new_embeddings nb)\<rparr>)"
      using None c by (simp add: build_index_def Let_def)
    with None c show ?thesis by (rule unbound)
  next
    case c: (Some cs)
    show ?thesis
    proof (cases "add_documents L (new_embeddings nb) (effects nb) (collection nb)
         (rebuild_documents (default_metadata L) cs)")
      case (Inl p)
      obtain e n where p: "p = (e, n)" by (cases p)
      have "build_index L nb =
         (Some e, nb\<lparr>embedding_model := Some (new_embeddings nb),
                     documents := Some (rebuild_documents (default_metadata L) cs),
                     collection := collection nb @ take n (rebuild_documents (default_metadata L) cs)\<rparr>)"
        using None c Inl p by (simp add: build_index_def collection_add_def Let_def)
      with None c Inl p show ?thesis using failed by blast
    next
      case (Inr u)
      have "build_index L nb =
         (None, nb\<lparr>embedding_model := Some (new_embeddings nb),
                   documents := Some (rebuild_documents (default_metadata L) cs),
                   collection := collection nb @ rebuild_documents (default_metadata L) cs,
                   vector_store := Some (new_embeddings nb)\<rparr>)"
        using None c Inr by (simp add: build_index_def collection_add_def Let_def)
      with None c Inr show ?thesis using stored by simp
    qed
  qed
qed

lemma build_index_frame:
  "environ (snd (build_index L nb)) = environ nb"
  "openai_api_key (snd (build_index L nb)) = openai_api_key nb"
  "chunks (snd (build_index L nb)) = chunks nb"
  "effects (snd (build_index L nb)) = effects nb"
  "retrieved_docs (snd (build_index L nb)) = retrieved_docs nb"
  by (cases L nb rule: build_index_cases; simp)+

lemma sample_search_frame:
  "environ (snd (sample_search L nb)) = environ nb"
  "openai_api_key (snd (sample_search L nb)) = openai_api_key nb"
  "chunks (snd (sample_search L nb)) = chunks nb"
  "collection (snd (sample_search L nb)) = collection nb"
  "embedding_model (snd (sample_search L nb)) = embedding_model nb"
  "vector_store (snd (sample_search L nb)) = vector_store nb"
  by (simp_all add: sample_search_def Let_def split: option.splits sum.splits)

lemma uses_key_build_index:
  assumes "uses_key v nb"
  shows "uses_key v (snd (build_index L nb))"
  using assms
  by (cases L nb rule: build_index_cases) (simp_all add: uses_key_def new_embeddings_def)

lemma uses_key_sample_search:
  "uses_key v nb \<Longrightarrow> uses_key v (snd (sample_search L nb))"
  by (simp add: uses_key_def sample_search_frame)

lemma cell9_setup_cases:
  "snd (cell9_setup L nb) = snd (build_index L (nb\<lparr>openai_api_key := environ nb ''OPENAI_API_KEY''\<rparr>))
   \<or> snd (cell9_setup L nb) =
       snd (sample_search L (snd (build_index L (nb\<lparr>openai_api_key := environ nb ''OPENAI_API_KEY''\<rparr>))))"
  by (cases "build_index L (nb\<lparr>openai_api_key := environ nb ''OPENAI_API_KEY''\<rparr>)")
    (auto simp: cell9_setup_def split: option.splits)

lemma uses_key_cell9_setup:
  assumes "uses_key v nb"
  shows "uses_key v (snd (cell9_setup L nb))"
proof -
  have "uses_key v (nb\<lparr>openai_api_key := environ nb ''OPENAI_API_KEY''\<rparr>)"
    using assms by (simp add: uses_key_def)
  then have "uses_key v (snd (build_index L (nb\<lparr>openai_api_key := environ nb ''OPENAI_API_KEY''\<rparr>)))"
    by (rule uses_key_build_index)
  then show ?thesis
    using cell9_setup_cases [of L nb] uses_key_sample_search by metis
qed

lemma cell9_setup_frame:
  "environ (snd (cell9_setup L nb)) = environ nb"
  "openai_api_key (snd (cell9_setup L nb)) = environ nb ''OPENAI_API_KEY''"
  "chunks (snd (cell9_setup L nb)) = chunks nb"
  using cell9_setup_cases [of L nb]
  by (auto simp: build_index_frame sample_search_frame)

lemma cell9_state:
  "\<exists>t. snd (cell9 L nb lines) = (snd (cell9_setup L nb))\<lparr>effects := t\<rparr>"
proof (cases "cell9_setup L nb")
  case (Pair r nb1)
  show ?thesis
  proof (cases r)
    case None
    then show ?thesis
      using Pair by (cases "chat_loop (cell9_remote L nb1) (effects nb1) lines")
        (auto simp: cell9_def)
  next
    case (Some e)
    have "nb1 = nb1\<lparr>effects := effects nb1\<rparr>" by simp
    then have "\<exists>t. nb1 = nb1\<lparr>effects := t\<rparr>" by (rule exI)
    then show ?thesis using Pair Some by (simp add: cell9_def)
  qed
qed

lemma uses_key_cell9:
  assumes "uses_key v nb"
  shows "uses_key v (snd (cell9 L nb lines))"
proof -
  obtain t where "snd (cell9 L nb lines) = (snd (cell9_setup L nb))\<lparr>effects := t\<rparr>"
    using cell9_state by blast
  then show ?thesis
    using uses_key_cell9_setup [OF assms, of L] by (simp add: uses_key_def)
qed

lemma cell5_with_environ:
  "environ (snd (cell5_with key L nb)) = (environ nb)(''OPENAI_API_KEY'' \<mapsto> key)"
  by (simp add: cell5_with_def build_index_frame)

lemma cell5_with_caller:
  "cell5_with key L (nb\<lparr>environ := (environ nb)(''OPENAI_API_KEY'' := v)\<rparr>) = cell5_with key L nb"
  by (simp add: cell5_with_def)

lemma uses_key_cell5_with:
  assumes "embedding_model nb = None" "vector_store nb = None"
  shows "uses_key (Some key) (snd (cell5_with key L nb))"
proof -
  have "uses_key (Some key) (nb\<lparr>environ := (environ nb)(''OPENAI_API_KEY'' \<mapsto> key)\<rparr>)"
    using assms by (simp add: uses_key_def)
  then show ?thesis
    unfolding cell5_with_def by (rule uses_key_build_index)
qed

lemma build_index_call:
  assumes "check_embeddings L (new_embeddings nb) = None" "chunks nb = Some cs"
  shows "fst (build_index L nb) =
     (case add_documents L (new_embeddings nb) (effects nb) (collection nb)
             (rebuild_documents (default_metadata L) cs) of
        Inl (e, n) \<Rightarrow> Some e
      | Inr u \<Rightarrow> None)"
  using assms by (cases L nb rule: build_index_cases) simp_all

lemma pipeline_uses_key:
  assumes "embedding_model nb = None" "vector_store nb = None"
    "after = snd (cell9_setup L (snd (cell7 L (snd (cell5_with key L nb)))))"
  shows "uses_key (Some key) after"
    and "openai_api_key after = Some key"
    and "environ after = (environ nb)(''OPENAI_API_KEY'' \<mapsto> key)"
proof -
  let ?nb5 = "snd (cell5_with key L nb)"
  let ?nb7 = "snd (cell7 L ?nb5)"
  have u5: "uses_key (Some key) ?nb5"
    using assms(1,2) by (rule uses_key_cell5_with)
  then have u7: "uses_key (Some key) ?nb7"
    by (simp add: cell7_def uses_key_sample_search)
  then show "uses_key (Some key) after"
    unfolding assms(3) by (rule uses_key_cell9_setup)
  have "environ ?nb7 ''OPENAI_API_KEY'' = Some key"
    using u7 by (simp add: uses_key_def)
  then show "openai_api_key after = Some key"
    by (simp add: assms(3) cell9_setup_frame)
  show "environ after = (environ nb)(''OPENAI_API_KEY'' \<mapsto> key)"
    by (simp add: assms(3) cell9_setup_frame cell7_def sample_search_frame cell5_with_environ)
qed

text \<open>
  Claim C8, as the notebook has it. The credential of every embedding and chat-completion
  call is the value of the environment variable \<^verbatim>\<open>OPENAI_API_KEY\<close> as cell 5 sets it, not
  as the caller set it. Cell 5 assigns the variable the string written in the source (the
  empty string, as published) before it makes the first client, and changes no other
  variable; whatever the caller had set, cell 5 runs the same. From a fresh kernel, every
  embedding client a variable holds after cell 5 was made under that value, and it is
  the client \<^verbatim>\<open>Chroma.from_documents\<close> embeds with. Cells 7 and 9 only read the variable:
  they keep its value and that of every client, cell 9 copies it into
  \<^verbatim>\<open>openai.api_key\<close>, the searches of \<^verbatim>\<open>ask_question\<close> go through the client of
  \<^verbatim>\<open>vector_store\<close> and its completions through a client made under that environment.
  So when cells 5, 7 and 9 have run from a fresh kernel, every completion is asked under
  the environment of the caller with the variable set to the string of cell 5.
\<close>

theorem credential_set_by_cell5:
  "cell5 L nb = cell5_with [] L nb
   \<and> environ (snd (cell5_with key L nb)) = (environ nb)(''OPENAI_API_KEY'' \<mapsto> key)
   \<and> cell5_with key L (nb\<lparr>environ := (environ nb)(''OPENAI_API_KEY'' := v)\<rparr>) = cell5_with key L nb
   \<and> (embedding_model nb = None \<and> vector_store nb = None \<longrightarrow>
        uses_key (Some key) (snd (cell5_with key L nb)))
   \<and> (uses_key w nb \<longrightarrow>
        uses_key w (snd (cell7 L nb))
        \<and> uses_key w (snd (cell9_setup L nb))
        \<and> uses_key w (snd (cell9 L nb lines))
        \<and> openai_api_key (snd (cell9_setup L nb)) = w)
   \<and> emb_environ (new_embeddings nb) = environ nb
   \<and> (check_embeddings L (new_embeddings nb) = None \<and> chunks nb = Some cs \<longrightarrow>
        fst (build_index L nb) =
          (case add_documents L (new_embeddings nb) (effects nb) (collection nb)
                  (rebuild_documents (default_metadata L) cs) of
             Inl (e, n) \<Rightarrow> Some e
           | Inr u \<Rightarrow> None))
   \<and> similarity_search (cell9_remote L nb) t q k =
       (case vector_store nb of
          None \<Rightarrow> Inl (NameError ''vector_store'')
        | Some vs \<Rightarrow> store_search L vs (collection nb) t q k)
   \<and> chat_create (cell9_remote L nb) t m ms =
       chat_completion L (environ nb) (openai_api_key nb) t m ms
   \<and> (embedding_model nb = None \<and> vector_store nb = None
        \<and> after = snd (cell9_setup L (snd (cell7 L (snd (cell5_with key L nb))))) \<longrightarrow>
        uses_key (Some key) after
        \<and> openai_api_key after = Some key
        \<and> chat_create (cell9_remote L after) t m ms =
            chat_completion L ((environ nb)(''OPENAI_API_KEY'' \<mapsto> key)) (Some key) t m ms)"
proof -
  have run: "uses_key (Some key) after
        \<and> openai_api_key after = Some key
        \<and> chat_create (cell9_remote L after) t m ms =
            chat_completion L ((environ nb)(''OPENAI_API_KEY'' \<mapsto> key)) (Some key) t m ms"
    if "embedding_model nb = None" "vector_store nb = None"
      "after = snd (cell9_setup L (snd (cell7 L (snd (cell5_with key L nb)))))"
    using pipeline_uses_key [OF that] by (simp add: cell9_remote_def)
  have "uses_key w (snd (cell7 L nb))
        \<and> uses_key w (snd (cell9_setup L nb))
        \<and> uses_key w (snd (cell9 L nb lines))
        \<and> openai_api_key (snd (cell9_setup L nb)) = w"
    if "uses_key w nb"
  proof -
    have "environ nb ''OPENAI_API_KEY'' = w" using that by (simp add: uses_key_def)
    then show ?thesis
      using that
      by (simp add: cell7_def uses_key_sample_search uses_key_cell9_setup uses_key_cell9
          cell9_setup_frame)
  qed
  moreover have "emb_environ (new_embeddings nb) = environ nb"
    by (simp add: new_embeddings_def)
  moreover have "similarity_search (cell9_remote L nb) t q k =
       (case vector_store nb of
          None \<Rightarrow> Inl (NameError ''vector_store'')
        | Some vs \<Rightarrow> store_search L vs (collection nb) t q k)"
    by (simp add: cell9_remote_def)
  moreover have "chat_create (cell9_remote L nb) t m ms =
       chat_completion L (environ nb) (openai_api_key nb) t m ms"
    by (simp add: cell9_remote_def)
  ultimately show ?thesis
    using cell5_with_environ [of key L nb] cell5_with_caller [of key L nb v]
      uses_key_cell5_with [of nb key L] build_index_call [of L nb cs] run
    by (simp add: cell5_def)
qed

lemma cell3_sample: "cell3 library_sample fresh_notebook = (None, loaded_notebook)"
  by (simp add: cell3_def library_sample_def loaded_notebook_def text_splitter_def
      page1_def page2_def)

lemma loaded_fields:
  "environ loaded_notebook = [''OPENAI_API_KEY'' \<mapsto> ''sk-caller'', ''HOME'' \<mapsto> ''/root'']"
  "openai_api_key loaded_notebook = None"
  "collection loaded_notebook = []"
  "effects loaded_notebook = []"
  "chunks loaded_notebook = Some [page1, page2]"
  "embedding_model loaded_notebook = None"
  "vector_store loaded_notebook = None"
  "retrieved_docs loaded_notebook = None"
  by (simp_all add: loaded_notebook_def fresh_notebook_def)

lemma rebuild_sample: "rebuild_documents Map.empty [page1, page2] = [stored1, stored2]"
  by (simp add: rebuild_documents_def page1_def page2_def stored1_def stored2_def)

lemma sample_library_fields:
  "default_metadata library_sample = Map.empty"
  "check_embeddings library_sample e =
     (if emb_environ e ''OPENAI_API_KEY'' = None \<and> emb_api_key e = None
      then Some (ValueError ''no api key'') else None)"
  "add_documents library_sample e t col docs =
     (if docs = [] then Inl (ValueError ''empty list'', 0)
      else if valid_key (emb_environ e ''OPENAI_API_KEY'') then Inr ()
      else Inl (RemoteError ''401'', 0))"
  "nearest library_sample e t col q k =
     (if valid_key (emb_environ e ''OPENAI_API_KEY'') then Inr [0..<min k (length col)]
      else Inl (RemoteError ''401''))"
  "chat_completion library_sample env key t m ms =
     (if valid_key (env ''OPENAI_API_KEY'') then Inr [Some ''RAG combines retrieval and generation.'']
      else Inl (RemoteError ''401''))"
  by (simp_all add: library_sample_def)

lemma cell5_published_sample:
  "cell5_with [] library_sample loaded_notebook =
     (Some (RemoteError ''401''),
      loaded_notebook
        \<lparr>environ := [''OPENAI_API_KEY'' \<mapsto> [], ''HOME'' \<mapsto> ''/root''],
         embedding_model :=
           Some \<lparr>emb_model = ''text-embedding-3-small'',
                 emb_environ = [''OPENAI_API_KEY'' \<mapsto> [], ''HOME'' \<mapsto> ''/root''],
                 emb_api_key = None\<rparr>,
         documents := Some [stored1, stored2]\<rparr>)"
proof -
  have env: "(environ loaded_notebook)(''OPENAI_API_KEY'' \<mapsto> []) =
      [''OPENAI_API_KEY'' \<mapsto> [], ''HOME'' \<mapsto> ''/root'']"
    by (auto simp: loaded_fields)
  show ?thesis
    unfolding cell5_with_def env
    by (simp add: build_index_def new_embeddings_def Let_def loaded_fields sample_library_fields
        rebuild_sample valid_key_def collection_add_def stored1_def)
qed

theorem credential_set_by_cell5_witness:
  "cell3 library_sample fresh_notebook = (None, loaded_notebook)
   \<and> embedding_model loaded_notebook = None \<and> vector_store loaded_notebook = None
   \<and> environ loaded_notebook ''OPENAI_API_KEY'' = Some ''sk-caller''
   \<and> environ (snd (cell5 library_sample loaded_notebook)) ''OPENAI_API_KEY'' = Some []
   \<and> environ (snd (cell5 library_sample loaded_notebook)) ''HOME'' = Some ''/root''
   \<and> fst (cell5 library_sample loaded_notebook) = Some (RemoteError ''401'')
   \<and> uses_key (Some []) (snd (cell5 library_sample loaded_notebook))
   \<and> uses_key (Some []) (snd (cell9_setup library_sample (snd (cell5 library_sample loaded_notebook))))
   \<and> openai_api_key (snd (cell9_setup library_sample (snd (cell5 library_sample loaded_notebook)))) = Some []
   \<and> cell5 library_sample (loaded_notebook\<lparr>environ := (environ loaded_notebook)(''OPENAI_API_KEY'' := None)\<rparr>)
       = cell5 library_sample loaded_notebook
   \<and> chat_create
        (cell9_remote library_sample (snd (cell9_setup library_sample (snd (cell7 library_sample
          (snd (cell5_with [] library_sample loaded_notebook)))))))
        [] ''gpt-4'' [] = Inl (RemoteError ''401'')"
proof -
  let ?nb = loaded_notebook
  let ?set = "?nb\<lparr>environ := (environ ?nb)(''OPENAI_API_KEY'' \<mapsto> [])\<rparr>"
  note A = credential_set_by_cell5 [where L = library_sample and nb = ?nb and key = "[]" and v = None]
  note B = credential_set_by_cell5 [where L = library_sample
      and nb = "snd (cell5 library_sample ?nb)" and w = "Some []"]
  note C = credential_set_by_cell5 [where L = library_sample and nb = ?set and cs = "[page1, page2]"]
  have fresh: "embedding_model ?nb = None \<and> vector_store ?nb = None"
    by (simp add: loaded_fields)
  have pub: "cell5 library_sample nb = cell5_with [] library_sample nb" for nb
    using credential_set_by_cell5 [where L = library_sample and nb = nb] by blast
  have env: "environ (snd (cell5 library_sample ?nb)) = (environ ?nb)(''OPENAI_API_KEY'' \<mapsto> [])"
    using A pub by simp
  have u5: "uses_key (Some []) (snd (cell5 library_sample ?nb))"
    using A fresh pub by simp
  have u9: "uses_key (Some []) (snd (cell9_setup library_sample (snd (cell5 library_sample ?nb))))
      \<and> openai_api_key (snd (cell9_setup library_sample (snd (cell5 library_sample ?nb)))) = Some []"
    using B u5 by blast
  have same: "cell5 library_sample (?nb\<lparr>environ := (environ ?nb)(''OPENAI_API_KEY'' := None)\<rparr>)
       = cell5 library_sample ?nb"
    using A pub by simp
  have pre: "check_embeddings library_sample (new_embeddings ?set) = None \<and> chunks ?set = Some [page1, page2]"
    by (simp add: sample_library_fields new_embeddings_def loaded_fields)
  have "fst (build_index library_sample ?set) =
          (case add_documents library_sample (new_embeddings ?set) (effects ?set) (collection ?set)
                  (rebuild_documents (default_metadata library_sample) [page1, page2]) of
             Inl (e, n) \<Rightarrow> Some e
           | Inr u \<Rightarrow> None)"
    using C pre by blast
  then have err: "fst (cell5 library_sample ?nb) = Some (RemoteError ''401'')"
    by (simp add: pub cell5_with_def sample_library_fields new_embeddings_def rebuild_sample
        valid_key_def stored1_def)
  let ?after = "snd (cell9_setup library_sample (snd (cell7 library_sample
          (snd (cell5_with [] library_sample ?nb)))))"
  note D = credential_set_by_cell5 [where L = library_sample and nb = ?nb and key = "[]"
      and after = ?after and t = "[]" and m = "''gpt-4''" and ms = "[]"]
  have "chat_create (cell9_remote library_sample ?after) [] ''gpt-4'' [] =
      chat_completion library_sample ((environ ?nb)(''OPENAI_API_KEY'' \<mapsto> [])) (Some []) [] ''gpt-4'' []"
    using D fresh by blast
  then have chat: "chat_create (cell9_remote library_sample ?after) [] ''gpt-4'' [] =
      Inl (RemoteError ''401'')"
    by (simp add: sample_library_fields valid_key_def)
  show ?thesis
    using cell3_sample fresh env u5 u9 same err chat by (simp add: loaded_fields)
qed

text \<open>
  Against claim C8 as the specification words it: the caller exports the key
  \<^verbatim>\<open>sk-caller\<close>, one the provider knows. When cell 5 has run, the variable holds the
  empty string, and the provider has refused the call made under it.
\<close>

theorem caller_key_replaced:
  "environ loaded_notebook ''OPENAI_API_KEY'' = Some ''sk-caller''
   \<and> environ (snd (cell5 library_sample loaded_notebook)) ''OPENAI_API_KEY'' = Some []
   \<and> environ (snd (cell5 library_sample loaded_notebook)) ''OPENAI_API_KEY''
       \<noteq> environ loaded_notebook ''OPENAI_API_KEY''
   \<and> fst (cell5 library_sample loaded_notebook) = Some (RemoteError ''401'')"
  by (simp add: cell5_def cell5_published_sample loaded_fields)

section \<open>The stored records\<close>

lemma rebuild_documents_texts:
  "map page_content (rebuild_documents md0 cs) = map page_content cs"
  by (simp add: rebuild_documents_def comp_def)

lemma rebuild_documents_metadata:
  "d \<in> set (rebuild_documents md0 cs) \<Longrightarrow> metadata d = md0 \<and> page_content d \<in> page_content ` set cs"
  by (auto simp: rebuild_documents_def)

lemma rebuild_documents_cong:
  assumes "map page_content cs = map page_content cs'"
  shows "rebuild_documents md0 cs = rebuild_documents md0 cs'"
proof -
  have eq: "rebuild_documents md0 xs =
      map (\<lambda>s. \<lparr>page_content = s, metadata = md0\<rparr>) (map page_content xs)" for xs
    by (simp add: rebuild_documents_def comp_def)
  show ?thesis by (simp only: eq assms)
qed

lemma build_index_collection:
  assumes "chunks nb = Some cs"
  shows "\<exists>n. collection (snd (build_index L nb)) =
     collection nb @ take n (rebuild_documents (default_metadata L) cs)"
proof (cases L nb rule: build_index_cases)
  case (refused e)
  then have "collection (snd (build_index L nb)) =
      collection nb @ take 0 (rebuild_documents (default_metadata L) cs)" by simp
  then show ?thesis by (rule exI)
next
  case unbound
  then show ?thesis using assms by simp
next
  case (failed cs' e n)
  then have "collection (snd (build_index L nb)) =
      collection nb @ take n (rebuild_documents (default_metadata L) cs)"
    using assms by simp
  then show ?thesis by (rule exI)
next
  case (stored cs')
  then have "collection (snd (build_index L nb)) =
      collection nb @ take (length cs) (rebuild_documents (default_metadata L) cs)"
    using assms by (simp add: rebuild_documents_def)
  then show ?thesis by (rule exI)
qed

lemma build_index_stored:
  assumes "chunks nb = Some cs" "fst (build_index L nb) = None"
  shows "collection (snd (build_index L nb)) =
      collection nb @ rebuild_documents (default_metadata L) cs"
    and "documents (snd (build_index L nb)) = Some (rebuild_documents (default_metadata L) cs)"
  using assms by (cases L nb rule: build_index_cases; simp)+

lemma build_index_unbound:
  assumes "chunks nb = None"
  shows "collection (snd (build_index L nb)) = collection nb"
  using assms by (cases L nb rule: build_index_cases) simp_all

lemma build_index_text_only:
  assumes "chunks nb = Some cs"
    "set (collection nb) \<subseteq> set (rebuild_documents (default_metadata L) cs)"
  shows "set (collection (snd (build_index L nb))) \<subseteq> set (rebuild_documents (default_metadata L) cs)"
proof -
  obtain n where "collection (snd (build_index L nb)) =
     collection nb @ take n (rebuild_documents (default_metadata L) cs)"
    using build_index_collection [OF assms(1)] by blast
  then show ?thesis
    using assms(2) set_take_subset [of n "rebuild_documents (default_metadata L) cs"] by auto
qed

lemma build_index_texts:
  assumes "map page_content cs = map page_content cs'"
  shows "fst (build_index L (nb\<lparr>chunks := Some cs\<rparr>)) = fst (build_index L (nb\<lparr>chunks := Some cs'\<rparr>))"
    and "collection (snd (build_index L (nb\<lparr>chunks := Some cs\<rparr>))) =
      collection (snd (build_index L (nb\<lparr>chunks := Some cs'\<rparr>)))"
  using rebuild_documents_cong [OF assms, of "default_metadata L"]
  by (simp_all add: build_index_def new_embeddings_def Let_def
      split: option.splits sum.splits prod.splits)

lemma store_search_subset:
  "store_search L emb col t q k = Inr ds \<Longrightarrow> set ds \<subseteq> set col"
  by (auto simp: store_search_def split: sum.splits)

lemma sample_search_retrieved:
  assumes "retrieved_docs (snd (sample_search L nb)) = Some ds" "retrieved_docs nb = None"
  shows "set ds \<subseteq> set (collection nb)"
  using assms store_search_subset
  by (auto simp: sample_search_def Let_def split: option.splits sum.splits)

lemma cell9_remote_subset:
  "similarity_search (cell9_remote L nb) t q k = Inr ds \<Longrightarrow> set ds \<subseteq> set (collection nb)"
  using store_search_subset by (auto simp: cell9_remote_def split: option.splits)

lemma cell9_setup_text_only:
  assumes "chunks nb = Some cs"
    "set (collection nb) \<subseteq> set (rebuild_documents (default_metadata L) cs)"
  shows "set (collection (snd (cell9_setup L nb))) \<subseteq> set (rebuild_documents (default_metadata L) cs)"
proof -
  let ?nb = "nb\<lparr>openai_api_key := environ nb ''OPENAI_API_KEY''\<rparr>"
  have "set (collection (snd (build_index L ?nb))) \<subseteq> set (rebuild_documents (default_metadata L) cs)"
    using assms by (intro build_index_text_only) simp_all
  then show ?thesis
    using cell9_setup_cases [of L nb] by (auto simp: sample_search_frame)
qed

lemma pipeline_text_only:
  assumes "chunks nb = Some cs" "collection nb = []"
    "nb9 = snd (cell9_setup L (snd (cell7 L (snd (cell5_with key L nb)))))"
  shows "chunks nb9 = Some cs"
    and "set (collection nb9) \<subseteq> set (rebuild_documents (default_metadata L) cs)"
proof -
  let ?nb5 = "snd (cell5_with key L nb)"
  let ?nb7 = "snd (cell7 L ?nb5)"
  have c5: "chunks ?nb5 = Some cs"
    using assms(1) by (simp add: cell5_with_def build_index_frame)
  have s5: "set (collection ?nb5) \<subseteq> set (rebuild_documents (default_metadata L) cs)"
    unfolding cell5_with_def using assms(1,2) by (intro build_index_text_only) simp_all
  have c7: "chunks ?nb7 = Some cs"
    using c5 by (simp add: cell7_def sample_search_frame)
  have s7: "set (collection ?nb7) \<subseteq> set (rebuild_documents (default_metadata L) cs)"
    using s5 by (simp add: cell7_def sample_search_frame)
  show "chunks nb9 = Some cs"
    using c7 by (simp add: assms(3) cell9_setup_frame)
  show "set (collection nb9) \<subseteq> set (rebuild_documents (default_metadata L) cs)"
    unfolding assms(3) using c7 s7 by (rule cell9_setup_text_only)
qed

text \<open>
  Claim C10. A stored record is the text of a chunk and nothing of the chunk's metadata.
  The documents the comprehension builds have the texts of the chunks, in order, each with
  the metadata a \<^verbatim>\<open>Document\<close> gets when none is given; chunks that differ only in
  metadata give the same documents, the same outcome of \<^verbatim>\<open>Chroma.from_documents\<close> and
  the same collection. Building the index adds documents of this list to the collection
  and nothing else: all of them when it succeeds, a first part when it raises, none when
  \<^verbatim>\<open>chunks\<close> is unbound. A search returns records of the collection. So when cells 5, 7
  and 9 have run on an empty collection, every record of the collection and every
  document a search of \<^verbatim>\<open>ask_question\<close> returns has the text of a chunk and the default
  metadata; when that default has no \<^verbatim>\<open>source\<close> and no \<^verbatim>\<open>page\<close>, no result has one.
\<close>

theorem stored_records_drop_metadata:
  "map page_content (rebuild_documents md cs) = map page_content cs
   \<and> (\<forall>d \<in> set (rebuild_documents md cs). metadata d = md)
   \<and> (map page_content cs = map page_content cs' \<longrightarrow>
        rebuild_documents md cs = rebuild_documents md cs'
        \<and> fst (build_index L (nb\<lparr>chunks := Some cs\<rparr>)) = fst (build_index L (nb\<lparr>chunks := Some cs'\<rparr>))
        \<and> collection (snd (build_index L (nb\<lparr>chunks := Some cs\<rparr>))) =
            collection (snd (build_index L (nb\<lparr>chunks := Some cs'\<rparr>))))
   \<and> (chunks nb = None \<longrightarrow> collection (snd (build_index L nb)) = collection nb)
   \<and> (chunks nb = Some cs \<longrightarrow>
        (\<exists>n. collection (snd (build_index L nb)) =
           collection nb @ take n (rebuild_documents (default_metadata L) cs))
        \<and> (fst (build_index L nb) = None \<longrightarrow>
             collection (snd (build_index L nb)) =
               collection nb @ rebuild_documents (default_metadata L) cs
             \<and> documents (snd (build_index L nb)) = Some (rebuild_documents (default_metadata L) cs)))
   \<and> (store_search L emb col t q k = Inr ds \<longrightarrow> set ds \<subseteq> set col)
   \<and> (retrieved_docs nb = None \<and> retrieved_docs (snd (cell7 L nb)) = Some ds \<longrightarrow>
        set ds \<subseteq> set (collection nb))
   \<and> (chunks nb = Some cs \<and> collection nb = []
        \<and> after = snd (cell9_setup L (snd (cell7 L (snd (cell5_with key L nb))))) \<longrightarrow>
        (\<forall>d \<in> set (collection after).
           metadata d = default_metadata L \<and> page_content d \<in> page_content ` set cs)
        \<and> (similarity_search (cell9_remote L after) t q k = Inr ds \<longrightarrow>
             (\<forall>d \<in> set ds. metadata d = default_metadata L \<and> page_content d \<in> page_content ` set cs))
        \<and> (similarity_search (cell9_remote L after) t q k = Inr ds
             \<and> default_metadata L ''source'' = None \<and> default_metadata L ''page'' = None \<longrightarrow>
             (\<forall>d \<in> set ds. metadata d ''source'' = None \<and> metadata d ''page'' = None)))"
proof -
  have rebuilt: "\<forall>d \<in> set (rebuild_documents md cs). metadata d = md"
    using rebuild_documents_metadata by blast
  have same: "rebuild_documents md cs = rebuild_documents md cs'
        \<and> fst (build_index L (nb\<lparr>chunks := Some cs\<rparr>)) = fst (build_index L (nb\<lparr>chunks := Some cs'\<rparr>))
        \<and> collection (snd (build_index L (nb\<lparr>chunks := Some cs\<rparr>))) =
            collection (snd (build_index L (nb\<lparr>chunks := Some cs'\<rparr>)))"
    if "map page_content cs = map page_content cs'"
    using that rebuild_documents_cong build_index_texts by blast
  have built: "(\<exists>n. collection (snd (build_index L nb)) =
           collection nb @ take n (rebuild_documents (default_metadata L) cs))
        \<and> (fst (build_index L nb) = None \<longrightarrow>
             collection (snd (build_index L nb)) =
               collection nb @ rebuild_documents (default_metadata L) cs
             \<and> documents (snd (build_index L nb)) = Some (rebuild_documents (default_metadata L) cs))"
    if "chunks nb = Some cs"
    using that build_index_collection build_index_stored by blast
  have seven: "set ds \<subseteq> set (collection nb)"
    if "retrieved_docs nb = None" "retrieved_docs (snd (cell7 L nb)) = Some ds"
    using that sample_search_retrieved [of L nb ds] by (simp add: cell7_def)
  have run: "(\<forall>d \<in> set (collection after).
           metadata d = default_metadata L \<and> page_content d \<in> page_content ` set cs)
        \<and> (similarity_search (cell9_remote L after) t q k = Inr ds \<longrightarrow>
             (\<forall>d \<in> set ds. metadata d = default_metadata L \<and> page_content d \<in> page_content ` set cs))
        \<and> (similarity_search (cell9_remote L after) t q k = Inr ds
             \<and> default_metadata L ''source'' = None \<and> default_metadata L ''page'' = None \<longrightarrow>
             (\<forall>d \<in> set ds. metadata d ''source'' = None \<and> metadata d ''page'' = None))"
    if "chunks nb = Some cs" "collection nb = []"
      "after = snd (cell9_setup L (snd (cell7 L (snd (cell5_with key L nb)))))"
  proof -
    have sub: "set (collection after) \<subseteq> set (rebuild_documents (default_metadata L) cs)"
      using that by (rule pipeline_text_only(2))
    have col: "metadata d = default_metadata L \<and> page_content d \<in> page_content ` set cs"
      if "d \<in> set (collection after)" for d
      using that sub rebuild_documents_metadata by blast
    have res: "metadata d = default_metadata L \<and> page_content d \<in> page_content ` set cs"
      if "similarity_search (cell9_remote L after) t q k = Inr ds" "d \<in> set ds" for d
      using that col cell9_remote_subset by blast
    show ?thesis
      using col res by simp
  qed
  show ?thesis
    using rebuild_documents_texts [of md cs] rebuilt same build_index_unbound [of nb L]
      built store_search_subset [of L emb col t q k ds] seven run
    by blast
qed

lemmas sample_run =
  cell5_with_def cell7_def cell9_setup_def sample_search_def store_search_def build_index_def
  new_embeddings_def collection_add_def Let_def loaded_fields sample_library_fields
  rebuild_sample valid_key_def cell9_remote_def

theorem stored_records_drop_metadata_witness:
  "metadata page1 ''source'' = Some ''2005.11401v4.pdf''
   \<and> chunks loaded_notebook = Some [page1, page2] \<and> collection loaded_notebook = []
   \<and> map page_content [page1, page2] = map page_content [stored1, stored2]
   \<and> rebuild_documents Map.empty [page1, page2] = [stored1, stored2]
   \<and> collection (snd (cell5 library_sample loaded_notebook)) = []
   \<and> fst (cell5_with ''sk-notebook'' library_sample loaded_notebook) = None
   \<and> collection (snd (cell5_with ''sk-notebook'' library_sample loaded_notebook)) = [stored1, stored2]
   \<and> collection (snd (cell9_setup library_sample (snd (cell7 library_sample
        (snd (cell5_with ''sk-notebook'' library_sample loaded_notebook))))))
       = [stored1, stored2, stored1, stored2]
   \<and> similarity_search
        (cell9_remote library_sample (snd (cell9_setup library_sample (snd (cell7 library_sample
          (snd (cell5_with ''sk-notebook'' library_sample loaded_notebook)))))))
        [] ''What is RAG?'' 3 = Inr [stored1, stored2, stored1]
   \<and> metadata stored1 ''source'' = None \<and> metadata stored1 ''page'' = None
   \<and> metadata stored2 ''source'' = None \<and> metadata stored2 ''page'' = None"
proof -
  let ?set = "loaded_notebook\<lparr>environ := (environ loaded_notebook)(''OPENAI_API_KEY'' \<mapsto> ''sk-notebook'')\<rparr>"
  let ?nb9 = "snd (cell9_setup library_sample (snd (cell7 library_sample
        (snd (cell5_with ''sk-notebook'' library_sample loaded_notebook)))))"
  note A = stored_records_drop_metadata [where md = Map.empty and cs = "[page1, page2]"
      and cs' = "[stored1, stored2]" and L = library_sample and nb = loaded_notebook
      and key = "''sk-notebook''" and after = ?nb9 and t = "[]" and q = "''What is RAG?''"
      and k = 3 and ds = "[stored1, stored2, stored1]"]
  note B = stored_records_drop_metadata [where cs = "[page1, page2]" and L = library_sample
      and nb = ?set]
  have pre: "chunks loaded_notebook = Some [page1, page2] \<and> collection loaded_notebook = []"
    by (simp add: loaded_fields)
  have pre': "chunks ?set = Some [page1, page2]"
    by (simp add: loaded_fields)
  have same: "map page_content [page1, page2] = map page_content [stored1, stored2]"
    by (simp add: page1_def page2_def stored1_def stored2_def)
  have self: "rebuild_documents Map.empty [stored1, stored2] = [stored1, stored2]"
    by (simp add: rebuild_documents_def stored1_def stored2_def)
  have r: "rebuild_documents Map.empty [page1, page2] = [stored1, stored2]"
    using A same self by simp
  have ok: "fst (cell5_with ''sk-notebook'' library_sample loaded_notebook) = None"
    by (simp add: sample_run stored1_def)
  then have "fst (build_index library_sample ?set) = None"
    by (simp add: cell5_with_def)
  then have "collection (snd (build_index library_sample ?set)) =
      collection ?set @ rebuild_documents (default_metadata library_sample) [page1, page2]"
    using B pre' by blast
  then have c1: "collection (snd (cell5_with ''sk-notebook'' library_sample loaded_notebook)) =
      [stored1, stored2]"
    using r by (simp add: cell5_with_def loaded_fields sample_library_fields)
  have c0: "collection (snd (cell5 library_sample loaded_notebook)) = []"
    by (simp add: cell5_def cell5_published_sample loaded_fields)
  have c9: "collection ?nb9 = [stored1, stored2, stored1, stored2]"
    by (simp add: sample_run stored1_def)
  have s9: "similarity_search (cell9_remote library_sample ?nb9) [] ''What is RAG?'' 3 =
      Inr [stored1, stored2, stored1]"
    by (simp add: sample_run stored1_def)
  have "\<forall>d \<in> set [stored1, stored2, stored1]. metadata d ''source'' = None \<and> metadata d ''page'' = None"
    using A pre s9 by (simp add: sample_library_fields)
  then have m: "metadata stored1 ''source'' = None \<and> metadata stored1 ''page'' = None
      \<and> metadata stored2 ''source'' = None \<and> metadata stored2 ''page'' = None"
    by simp
  have "metadata page1 ''source'' = Some ''2005.11401v4.pdf''"
    by (simp add: page1_def)
  then show ?thesis
    using pre same r ok c1 c0 c9 s9 m by simp
qed

end
